theory Spec2Isabelle
  imports Main
begin

section \<open>Batches of rows\<close>

text \<open>
  The pipeline moves pandas DataFrames between its stages. A cell of a frame is a missing
  marker (NaN, None or NaT), a string, a number or a Timestamp (nanoseconds since the
  epoch). A frame has an ordered list of column names and a list of rows; a row gives the
  cell under each column name, and only its cells under the frame's own column names are
  part of the frame.
\<close>

datatype cell = NaN | Str string | Num int | Timestamp int

type_synonym row = "string \<Rightarrow> cell"

record dataframe =
  columns :: "string list"
  rows :: "row list"

text \<open>
  The element-wise conversions of pandas that depend on text formats are parameters of the
  model: the date parser behind \<^verbatim>\<open>pd.to_datetime\<close>, the number parser behind
  \<^verbatim>\<open>pd.to_numeric\<close> followed by \<^verbatim>\<open>astype(int)\<close>, the text that \<^verbatim>\<open>astype(str)\<close>
  gives a value that is not a string, and \<^verbatim>\<open>strftime('%Y-%m-%d')\<close>.
\<close>

record pandas =
  parse_datetime :: "string \<Rightarrow> int option"
  parse_number :: "string \<Rightarrow> int option"
  repr :: "cell \<Rightarrow> string"
  strftime_ymd :: "int \<Rightarrow> string"

text \<open>\<^verbatim>\<open>pd.DataFrame()\<close>: no columns and no rows.\<close>

definition DataFrame :: dataframe where
  "DataFrame = \<lparr>columns = [], rows = []\<rparr>"

text \<open>\<^verbatim>\<open>df.empty\<close>: one of the two axes has length zero.\<close>

definition empty :: "dataframe \<Rightarrow> bool" where
  "empty df \<longleftrightarrow> rows df = [] \<or> columns df = []"

text \<open>\<^verbatim>\<open>len(df)\<close>: the number of rows.\<close>

definition len :: "dataframe \<Rightarrow> int" where
  "len df = int (length (rows df))"

text \<open>\<^verbatim>\<open>df[c] = f(df[c])\<close> for a column that exists: every row gets the converted cell.\<close>

definition assign :: "string \<Rightarrow> (cell \<Rightarrow> cell) \<Rightarrow> dataframe \<Rightarrow> dataframe" where
  "assign c f df = df\<lparr>rows := map (\<lambda>r. r(c := f (r c))) (rows df)\<rparr>"

text \<open>\<^verbatim>\<open>df[c] = v\<close> for a constant: the column is appended when the frame lacks it.\<close>

definition assign_const :: "string \<Rightarrow> cell \<Rightarrow> dataframe \<Rightarrow> dataframe" where
  "assign_const c v df =
     \<lparr>columns = (if c \<in> set (columns df) then columns df else columns df @ [c]),
      rows = map (\<lambda>r. r(c := v)) (rows df)\<rparr>"

text \<open>\<^verbatim>\<open>df.dropna(subset=[c])\<close>: a new frame with the rows whose cell under c is present.\<close>

definition dropna :: "string \<Rightarrow> dataframe \<Rightarrow> dataframe" where
  "dropna c df = df\<lparr>rows := filter (\<lambda>r. r c \<noteq> NaN) (rows df)\<rparr>"

text \<open>
  \<^verbatim>\<open>pd.to_datetime(x, errors='coerce')\<close> on one cell: a string is parsed and becomes
  missing when the parser refuses it, a number counts nanoseconds.
\<close>

fun to_datetime :: "pandas \<Rightarrow> cell \<Rightarrow> cell" where
  "to_datetime P NaN = NaN"
| "to_datetime P (Str s) = (case parse_datetime P s of None \<Rightarrow> NaN | Some t \<Rightarrow> Timestamp t)"
| "to_datetime P (Num n) = Timestamp n"
| "to_datetime P (Timestamp t) = Timestamp t"

text \<open>\<^verbatim>\<open>pd.to_numeric(x, errors='coerce').fillna(0).astype(int)\<close> on one cell.\<close>

fun to_numeric :: "pandas \<Rightarrow> cell \<Rightarrow> cell" where
  "to_numeric P NaN = NaN"
| "to_numeric P (Str s) = (case parse_number P s of None \<Rightarrow> NaN | Some n \<Rightarrow> Num n)"
| "to_numeric P (Num n) = Num n"
| "to_numeric P (Timestamp t) = Num t"

fun fillna :: "cell \<Rightarrow> cell \<Rightarrow> cell" where
  "fillna v NaN = v"
| "fillna v c = c"

definition to_int :: "pandas \<Rightarrow> cell \<Rightarrow> cell" where
  "to_int P c = fillna (Num 0) (to_numeric P c)"

text \<open>
  \<^verbatim>\<open>str.strip()\<close> removes the whitespace at both ends: the space, the control
  characters 9 to 13 and 28 to 31.
\<close>

definition is_space :: "char \<Rightarrow> bool" where
  "is_space ch \<longleftrightarrow> (let n = of_char ch :: nat in n = 32 \<or> (9 \<le> n \<and> n \<le> 13) \<or> (28 \<le> n \<and> n \<le> 31))"

definition strip :: "string \<Rightarrow> string" where
  "strip s = rev (dropWhile is_space (rev (dropWhile is_space s)))"

text \<open>\<^verbatim>\<open>x.astype(str)\<close> on one cell.\<close>

fun astype_str :: "pandas \<Rightarrow> cell \<Rightarrow> string" where
  "astype_str P (Str s) = s"
| "astype_str P c = repr P c"

text \<open>\<^verbatim>\<open>df[col].fillna('Unknown').astype(str).str.strip()\<close> on one cell.\<close>

definition clean_str :: "pandas \<Rightarrow> cell \<Rightarrow> cell" where
  "clean_str P c = Str (strip (astype_str P (fillna (Str ''Unknown'') c)))"

section \<open>The transformer\<close>

definition numerical_cols :: "string list" where
  "numerical_cols = [''case_positive_specimen_interval'', ''case_onset_interval'']"

definition str_cols :: "string list" where
  "str_cols = [''res_state'', ''age_group'', ''sex'', ''race'', ''ethnicity'', ''exposure_yn'',
     ''current_status'', ''symptom_status'', ''death_yn'', ''hosp_yn'', ''icu_yn'',
     ''underlying_conditions_yn'']"

definition location_cols :: "string list" where
  "location_cols = [''res_state'', ''state_fips_code'']"

text \<open>
  \<^verbatim>\<open>DataTransformer.clean_and_transform\<close> works on objects: its parameter df names
  the caller's frame, a column assignment \<^verbatim>\<open>df[c] = ...\<close> writes into the object that df
  names at that moment, and \<^verbatim>\<open>df = df.dropna(...)\<close> makes df name a new object. The
  store is the list of the frames allocated so far, an object is its position in the list.
  The function takes the store and the caller's object, and returns the store after the
  call together with the object it returns.
\<close>

type_synonym store = "dataframe list"

definition assign_in_place :: "string \<Rightarrow> (cell \<Rightarrow> cell) \<Rightarrow> store \<times> nat \<Rightarrow> store \<times> nat" where
  "assign_in_place c f = (\<lambda>(h, d).
     if c \<in> set (columns (h ! d)) then (h[d := assign c f (h ! d)], d) else (h, d))"

definition dropna_rebind :: "string \<Rightarrow> store \<times> nat \<Rightarrow> store \<times> nat" where
  "dropna_rebind c = (\<lambda>(h, d).
     if c \<in> set (columns (h ! d)) then (h @ [dropna c (h ! d)], length h) else (h, d))"

definition clean_and_transform :: "pandas \<Rightarrow> store \<Rightarrow> nat \<Rightarrow> store \<times> nat" where
  "clean_and_transform P h df =
     (if empty (h ! df) then (h, df)
      else
        let s1 = (if ''case_month'' \<in> set (columns (h ! df))
                  then dropna_rebind ''case_month''
                         (assign_in_place ''case_month'' (to_datetime P) (h, df))
                  else (h, df));
            s2 = fold (\<lambda>col. assign_in_place col (to_int P)) numerical_cols s1;
            s3 = fold (\<lambda>col. assign_in_place col (clean_str P)) str_cols s2;
            s4 = fold dropna_rebind location_cols s3
        in (case s4 of (h4, d4) \<Rightarrow>
              if ''process'' \<notin> set (columns (h4 ! d4))
              then (h4[d4 := assign_const ''process'' (Str ''Unknown'') (h4 ! d4)], d4)
              else (h4, d4)))"

text \<open>The frame a call returns when the caller's frame b is the only object of the store.\<close>

definition cleaned :: "pandas \<Rightarrow> dataframe \<Rightarrow> dataframe" where
  "cleaned P b = (case clean_and_transform P [b] 0 of (h, d) \<Rightarrow> h ! d)"


text \<open>
  What the call computes, on frames as values: the same steps in the same order, each
  guarded by the presence of its column.
\<close>

definition assign_if :: "string \<Rightarrow> (cell \<Rightarrow> cell) \<Rightarrow> dataframe \<Rightarrow> dataframe" where
  "assign_if c f df = (if c \<in> set (columns df) then assign c f df else df)"

definition dropna_if :: "string \<Rightarrow> dataframe \<Rightarrow> dataframe" where
  "dropna_if c df = (if c \<in> set (columns df) then dropna c df else df)"

definition ensure_process :: "dataframe \<Rightarrow> dataframe" where
  "ensure_process df =
     (if ''process'' \<notin> set (columns df) then assign_const ''process'' (Str ''Unknown'') df else df)"

definition clean_value :: "pandas \<Rightarrow> dataframe \<Rightarrow> dataframe" where
  "clean_value P b =
     ensure_process (fold dropna_if location_cols
       (fold (\<lambda>col. assign_if col (clean_str P)) str_cols
         (fold (\<lambda>col. assign_if col (to_int P)) numerical_cols
           (dropna_if ''case_month'' (assign_if ''case_month'' (to_datetime P) b)))))"

text \<open>Every cell of a column satisfies a predicate.\<close>

definition col_all :: "(cell \<Rightarrow> bool) \<Rightarrow> string \<Rightarrow> dataframe \<Rightarrow> bool" where
  "col_all Q c df \<longleftrightarrow> (\<forall>r \<in> set (rows df). Q (r c))"

subsection \<open>Example inputs\<close>

text \<open>A pandas whose date parser reads the month 2020-03 (as its first instant) and nothing else.\<close>

definition example_pandas :: pandas where
  "example_pandas =
     \<lparr>parse_datetime = (\<lambda>s. if s = ''2020-03'' then Some 1583020800000000000 else None),
      parse_number = (\<lambda>s. None),
      repr = (\<lambda>c. []),
      strftime_ymd = (\<lambda>t. ''2020-03-01'')\<rparr>"

text \<open>One row with a date and a FIPS code, and no value under res_state.\<close>

definition missing_state_batch :: dataframe where
  "missing_state_batch =
     \<lparr>columns = [''case_month'', ''res_state'', ''state_fips_code''],
      rows = [(\<lambda>c. NaN)(''case_month'' := Str ''2020-03'', ''state_fips_code'' := Num 12)]\<rparr>"



section \<open>The client of the remote source\<close>

text \<open>
  A call of \<^verbatim>\<open>pd.read_csv(url)\<close> returns a frame or raises. The two handlers of
  \<^verbatim>\<open>fetch_data\<close> catch a \<^verbatim>\<open>requests.RequestException\<close> and any other
  \<^verbatim>\<open>Exception\<close>. The source is a function of the number of calls made before this one
  and of the limit and the offset that \<^verbatim>\<open>base_url.format\<close> writes into the URL
  (base_url is taken to be a template that format accepts).
\<close>

datatype outcome = Ok dataframe | RequestException | OtherException

type_synonym network = "nat \<Rightarrow> int \<Rightarrow> int \<Rightarrow> outcome"

text \<open>
  What a run does, in order: the requests it sends, the calls of \<^verbatim>\<open>time.sleep\<close>, and
  the frames that the generator yields.
\<close>

datatype event = Request int int | Sleep int | Yield dataframe

text \<open>
  The loop \<^verbatim>\<open>for attempt in range(retries)\<close> of \<^verbatim>\<open>fetch_data\<close>, on the attempts that
  are left; k counts the calls of read_csv made so far. The result is the returned frame,
  the events of the call and the new count.
\<close>

fun fetch_attempts ::
  "network \<Rightarrow> int \<Rightarrow> int \<Rightarrow> int \<Rightarrow> int \<Rightarrow> nat \<Rightarrow> int list \<Rightarrow> dataframe \<times> event list \<times> nat" where
  "fetch_attempts net limit offset retries wait k [] = (DataFrame, [], k)"
| "fetch_attempts net limit offset retries wait k (attempt # rest) =
     (case net k limit offset of
        Ok df \<Rightarrow> (df, [Request limit offset], Suc k)
      | RequestException \<Rightarrow>
          (case fetch_attempts net limit offset retries wait (Suc k) rest of
             (df, evs, k') \<Rightarrow>
               (df, Request limit offset #
                      (if attempt < retries - 1 then [Sleep wait] else []) @ evs, k'))
      | OtherException \<Rightarrow>
          (case fetch_attempts net limit offset retries wait (Suc k) rest of
             (df, evs, k') \<Rightarrow>
               (df, Request limit offset #
                      (if attempt < retries - 1 then [Sleep wait] else []) @ evs, k')))"

text \<open>\<^verbatim>\<open>range(retries)\<close>\<close>

definition py_range :: "int \<Rightarrow> int list" where
  "py_range n = map int [0..<nat n]"

definition fetch_data ::
  "network \<Rightarrow> int \<Rightarrow> int \<Rightarrow> int \<Rightarrow> int \<Rightarrow> nat \<Rightarrow> dataframe \<times> event list \<times> nat" where
  "fetch_data net limit offset retries wait k =
     fetch_attempts net limit offset retries wait k (py_range retries)"

text \<open>
  \<^verbatim>\<open>x.dt.date\<close> of a Timestamp, as the number of its day; a \<^verbatim>\<open>datetime.date\<close> is the
  number of its day too.
\<close>

definition date_of :: "int \<Rightarrow> int" where
  "date_of t = t div 86400000000000"

text \<open>
  \<^verbatim>\<open>chunk[chunk['case_month'].dt.date >= start_date]\<close> and its counterpart for the end
  date: a comparison with a missing date is false.
\<close>

definition filter_from :: "int \<Rightarrow> dataframe \<Rightarrow> dataframe" where
  "filter_from s df =
     df\<lparr>rows := filter (\<lambda>r. case r ''case_month'' of Timestamp t \<Rightarrow> s \<le> date_of t | _ \<Rightarrow> False)
                  (rows df)\<rparr>"

definition filter_upto :: "int \<Rightarrow> dataframe \<Rightarrow> dataframe" where
  "filter_upto e df =
     df\<lparr>rows := filter (\<lambda>r. case r ''case_month'' of Timestamp t \<Rightarrow> date_of t \<le> e | _ \<Rightarrow> False)
                  (rows df)\<rparr>"

record query =
  chunk_size :: int
  max_rows :: "int option"
  start_date :: "int option"
  end_date :: "int option"

text \<open>The block under \<^verbatim>\<open>if start_date or end_date\<close>; a date is always true.\<close>

definition date_filter :: "pandas \<Rightarrow> query \<Rightarrow> dataframe \<Rightarrow> dataframe" where
  "date_filter P q chunk =
     (if start_date q \<noteq> None \<or> end_date q \<noteq> None then
        if ''case_month'' \<in> set (columns chunk) then
          let c1 = assign ''case_month'' (to_datetime P) chunk;
              c2 = (case start_date q of Some s \<Rightarrow> filter_from s c1 | None \<Rightarrow> c1)
          in (case end_date q of Some e \<Rightarrow> filter_upto e c2 | None \<Rightarrow> c2)
        else chunk
      else chunk)"

text \<open>
  \<^verbatim>\<open>min(chunk_size, max_rows - total_rows) if max_rows else chunk_size\<close>: a max_rows
  of None or of 0 is false.
\<close>

definition request_limit :: "query \<Rightarrow> int \<Rightarrow> int" where
  "request_limit q rows_so_far =
     (case max_rows q of
        None \<Rightarrow> chunk_size q
      | Some m \<Rightarrow> if m \<noteq> 0 then min (chunk_size q) (m - rows_so_far) else chunk_size q)"

record gen_state =
  offset :: int
  total_rows :: int
  calls :: nat

text \<open>
  One turn of the loop \<^verbatim>\<open>while True\<close> of \<^verbatim>\<open>fetch_data_chunked\<close>: the events of the turn
  and the state of the next turn, or None when the loop is left. The generator runs the
  lines after its \<^verbatim>\<open>yield\<close> when it is resumed; its consumer in this program assigns
  columns of the yielded frame and never changes the number of its rows, so
  \<^verbatim>\<open>len(chunk)\<close> is the length at the yield.
\<close>

definition iteration :: "pandas \<Rightarrow> network \<Rightarrow> query \<Rightarrow> gen_state \<Rightarrow> event list \<times> gen_state option" where
  "iteration P net q st =
     (if (case max_rows q of Some m \<Rightarrow> total_rows st \<ge> m | None \<Rightarrow> False) then ([], None)
      else
        let limit = request_limit q (total_rows st) in
        (case fetch_data net limit (offset st) 3 2 (calls st) of
           (fetched_chunk, evs, k') \<Rightarrow>
             if empty fetched_chunk then (evs, None)
             else
               let chunk = date_filter P q fetched_chunk in
               if empty chunk \<and> (start_date q \<noteq> None \<or> end_date q \<noteq> None) then (evs, None)
               else
                 let fetched = len chunk;
                     st' = \<lparr>offset = offset st + chunk_size q,
                            total_rows = total_rows st + fetched,
                            calls = k'\<rparr>
                 in (evs @ [Yield chunk], if fetched < limit then None else Some st')))"

text \<open>
  The generator, run for at most n turns of its loop: its events, and whether it has
  returned.
\<close>

fun run_chunked :: "pandas \<Rightarrow> network \<Rightarrow> query \<Rightarrow> nat \<Rightarrow> gen_state \<Rightarrow> event list \<times> bool" where
  "run_chunked P net q 0 st = ([], False)"
| "run_chunked P net q (Suc n) st =
     (case iteration P net q st of
        (evs, None) \<Rightarrow> (evs, True)
      | (evs, Some st') \<Rightarrow>
          (case run_chunked P net q n st' of (evs', done) \<Rightarrow> (evs @ evs', done)))"

definition initial :: gen_state where
  "initial = \<lparr>offset = 0, total_rows = 0, calls = 0\<rparr>"

definition fetch_data_chunked :: "pandas \<Rightarrow> network \<Rightarrow> query \<Rightarrow> nat \<Rightarrow> event list \<times> bool" where
  "fetch_data_chunked P net q n = run_chunked P net q n initial"

text \<open>The frames yielded in a trace, and the total of their rows.\<close>

fun yielded :: "event list \<Rightarrow> dataframe list" where
  "yielded [] = []"
| "yielded (Yield c # es) = c # yielded es"
| "yielded (e # es) = yielded es"

definition rows_yielded :: "event list \<Rightarrow> int" where
  "rows_yielded es = sum_list (map len (yielded es))"

text \<open>The limits and offsets of the requests of a trace.\<close>

fun requests :: "event list \<Rightarrow> (int \<times> int) list" where
  "requests [] = []"
| "requests (Request l off # es) = (l, off) # requests es"
| "requests (e # es) = requests es"


text \<open>A list with a separator between its neighbours.\<close>

fun intersperse :: "'a \<Rightarrow> 'a list \<Rightarrow> 'a list" where
  "intersperse s [] = []"
| "intersperse s [x] = [x]"
| "intersperse s (x # y # zs) = x # s # intersperse s (y # zs)"


subsection \<open>Example sources\<close>

text \<open>
  A source of four rows that serves the page asked for. Its second row is from a month
  that the example parser does not read.
\<close>

definition month_row :: "string \<Rightarrow> row" where
  "month_row m = (\<lambda>c. NaN)(''case_month'' := Str m, ''res_state'' := Str ''FL'',
                    ''state_fips_code'' := Num 12)"

definition source_rows :: "row list" where
  "source_rows = [month_row ''2020-03'', month_row ''2019-11'', month_row ''2020-03'',
                  month_row ''2020-03'']"

definition page :: "int \<Rightarrow> int \<Rightarrow> dataframe" where
  "page l off =
     \<lparr>columns = [''case_month'', ''res_state'', ''state_fips_code''],
      rows = take (nat l) (drop (nat off) source_rows)\<rparr>"

definition four_rows :: network where
  "four_rows k l off = Ok (page l off)"

text \<open>Chunks of two rows, from the first of March 2020 (day 18322) on.\<close>

definition from_march :: query where
  "from_march = \<lparr>chunk_size = 2, max_rows = None, start_date = Some 18322, end_date = None\<rparr>"


text \<open>A source that is down.\<close>

definition unreachable :: network where
  "unreachable k l off = RequestException"

section \<open>The storage handler\<close>

text \<open>
  The columns of the statement \<^verbatim>\<open>INSERT INTO cdc_covid_cases (...)\<close>, in its order, the
  columns of \<^verbatim>\<open>UNIQUE KEY unique_case\<close>, and the columns set by
  \<^verbatim>\<open>ON DUPLICATE KEY UPDATE\<close>.
\<close>

definition insert_columns :: "string list" where
  "insert_columns = [''case_month'', ''res_state'', ''state_fips_code'', ''age_group'', ''sex'',
     ''race'', ''ethnicity'', ''case_positive_specimen_interval'', ''case_onset_interval'',
     ''process'', ''exposure_yn'', ''current_status'', ''symptom_status'', ''hosp_yn'', ''icu_yn'',
     ''death_yn'', ''underlying_conditions_yn'']"

definition unique_case :: "string list" where
  "unique_case = [''case_month'', ''res_state'', ''age_group'', ''sex'', ''race'', ''ethnicity'']"

definition update_columns :: "string list" where
  "update_columns = [''death_yn'', ''hosp_yn'', ''icu_yn'', ''underlying_conditions_yn'']"

text \<open>The dict \<^verbatim>\<open>expected_cols\<close> of \<^verbatim>\<open>load_cdc_data\<close>: a column and its default.\<close>

definition expected_cols :: "(string \<times> cell) list" where
  "expected_cols =
     [(''case_month'', NaN), (''res_state'', Str ''Unknown''), (''state_fips_code'', Num 0),
      (''age_group'', Str ''Unknown''), (''sex'', Str ''Unknown''), (''race'', Str ''Unknown''),
      (''ethnicity'', Str ''Unknown''), (''case_positive_specimen_interval'', Num 0),
      (''case_onset_interval'', Num 0), (''process'', Str ''Unknown''),
      (''exposure_yn'', Str ''Unknown''), (''current_status'', Str ''Unknown''),
      (''symptom_status'', Str ''Unknown''), (''hosp_yn'', Str ''Unknown''),
      (''icu_yn'', Str ''Unknown''), (''death_yn'', Str ''Unknown''),
      (''underlying_conditions_yn'', Str ''Unknown'')]"

text \<open>
  \<^verbatim>\<open>{col: row[col] if col in row else default_val for col, default_val in
  expected_cols.items()}\<close>; the index of a row that \<^verbatim>\<open>iterrows\<close> gives is the list of
  the columns of the frame.
\<close>

definition row_data :: "string list \<Rightarrow> row \<Rightarrow> (string \<times> cell) list" where
  "row_data cols r =
     map (\<lambda>(col, default_val). (col, if col \<in> set cols then r col else default_val)) expected_cols"

text \<open>\<^verbatim>\<open>d[k]\<close> for a key of the dict.\<close>

definition item :: "(string \<times> cell) list \<Rightarrow> string \<Rightarrow> cell" where
  "item d k = (case map_of d k of Some v \<Rightarrow> v | None \<Rightarrow> NaN)"

datatype py_error = AttributeError

text \<open>
  \<^verbatim>\<open>row_data['case_month'].strftime('%Y-%m-%d') if pd.notnull(row_data['case_month'])
  else None\<close>: a value that is present and is not a Timestamp has no strftime.
\<close>

definition case_month_str :: "pandas \<Rightarrow> (string \<times> cell) list \<Rightarrow> py_error + cell" where
  "case_month_str P d =
     (case item d ''case_month'' of
        NaN \<Rightarrow> Inr NaN
      | Timestamp t \<Rightarrow> Inr (Str (strftime_ymd P t))
      | Str s \<Rightarrow> Inl AttributeError
      | Num n \<Rightarrow> Inl AttributeError)"

text \<open>A value that \<^verbatim>\<open>load_cdc_data\<close> can turn into a date: a missing one or a Timestamp.\<close>

definition date_or_null :: "cell \<Rightarrow> bool" where
  "date_or_null c =
     (case c of NaN \<Rightarrow> True | Timestamp t \<Rightarrow> True | Str s \<Rightarrow> False | Num n \<Rightarrow> False)"

text \<open>The tuple appended to \<^verbatim>\<open>rows\<close> for one row of the frame.\<close>

definition params :: "pandas \<Rightarrow> string list \<Rightarrow> row \<Rightarrow> py_error + cell list" where
  "params P cols r =
     (let d = row_data cols r in
      case case_month_str P d of
        Inl e \<Rightarrow> Inl e
      | Inr month \<Rightarrow>
          Inr [month, item d ''res_state'', item d ''state_fips_code'', item d ''age_group'',
               item d ''sex'', item d ''race'', item d ''ethnicity'',
               item d ''case_positive_specimen_interval'', item d ''case_onset_interval'',
               item d ''process'', item d ''exposure_yn'', item d ''current_status'',
               item d ''symptom_status'', item d ''hosp_yn'', item d ''icu_yn'', item d ''death_yn'',
               item d ''underlying_conditions_yn''])"

text \<open>The loop \<^verbatim>\<open>for _, row in df.iterrows()\<close>: the first error leaves it.\<close>

fun build_rows :: "pandas \<Rightarrow> string list \<Rightarrow> row list \<Rightarrow> py_error + cell list list" where
  "build_rows P cols [] = Inr []"
| "build_rows P cols (r # rs) =
     (case params P cols r of
        Inl e \<Rightarrow> Inl e
      | Inr p \<Rightarrow> (case build_rows P cols rs of Inl e \<Rightarrow> Inl e | Inr ps \<Rightarrow> Inr (p # ps)))"

text \<open>
  The table is the list of its rows in the order of their insertion (the surrogate id is
  left out). A stored row gives every column of the statement the parameter at its
  position; NaN stands for NULL.
\<close>

type_synonym table = "row list"

definition bind :: "cell list \<Rightarrow> row" where
  "bind p = (\<lambda>c. case map_of (zip insert_columns p) c of Some v \<Rightarrow> v | None \<Rightarrow> NaN)"

text \<open>
  A new row collides with a stored row on the unique key when the six columns of the key
  are equal; a NULL is equal to nothing in a unique index, so a key with a NULL never
  collides.
\<close>

definition duplicate_key :: "row \<Rightarrow> row \<Rightarrow> bool" where
  "duplicate_key new old \<longleftrightarrow> list_all (\<lambda>c. new c \<noteq> NaN \<and> new c = old c) unique_case"

text \<open>\<^verbatim>\<open>ON DUPLICATE KEY UPDATE c = VALUES(c)\<close> for the four columns.\<close>

definition on_duplicate_update :: "row \<Rightarrow> row \<Rightarrow> row" where
  "on_duplicate_update new old = fold (\<lambda>c r. r(c := new c)) update_columns old"

text \<open>The statement for one row: update the row it collides with, or insert.\<close>

fun upsert :: "row \<Rightarrow> table \<Rightarrow> table" where
  "upsert new [] = [new]"
| "upsert new (old # t) =
     (if duplicate_key new old then on_duplicate_update new old # t else old # upsert new t)"

text \<open>\<^verbatim>\<open>cursor.executemany(insert_sql, rows)\<close> followed by the commit.\<close>

definition executemany :: "table \<Rightarrow> cell list list \<Rightarrow> table" where
  "executemany t ps = foldl (\<lambda>t p. upsert (bind p) t) t ps"

text \<open>
  \<^verbatim>\<open>load_cdc_data\<close>, on a handler with a connection (the constructor raises when it
  cannot connect). The engine may refuse the parameters of a batch (a type or a length
  that a column does not take): \<^verbatim>\<open>mysql.connector.Error\<close> is caught, the transaction is
  rolled back and the table is as before. An error raised while the tuples are built is
  not caught.
\<close>

definition load_cdc_data ::
  "pandas \<Rightarrow> (cell list list \<Rightarrow> bool) \<Rightarrow> table \<Rightarrow> dataframe \<Rightarrow> py_error + table" where
  "load_cdc_data P accepts t df =
     (case build_rows P (columns df) (rows df) of
        Inl e \<Rightarrow> Inl e
      | Inr ps \<Rightarrow> Inr (if accepts ps then executemany t ps else t))"

section \<open>The orchestrator\<close>



subsection \<open>Example rows\<close>



text \<open>A cleaned frame without the two location columns.\<close>

definition no_location_batch :: dataframe where
  "no_location_batch =
     \<lparr>columns = [''case_month'', ''sex'', ''process''],
      rows = [(\<lambda>c. NaN)(''case_month'' := Timestamp 1583020800000000000, ''sex'' := Str ''Male'',
                ''process'' := Str ''Unknown'')]\<rparr>"

section \<open>Properties of the transformer\<close>

subsection \<open>The returned frame as a value\<close>

lemma assign_in_place_eq:
  "d < length h \<Longrightarrow> assign_in_place c f (h, d) = (h[d := assign_if c f (h ! d)], d)"
  by (simp add: assign_in_place_def assign_if_def)

lemma fold_assign_in_place:
  "d < length h \<Longrightarrow>
   fold (\<lambda>col. assign_in_place col f) cs (h, d) =
     (h[d := fold (\<lambda>col. assign_if col f) cs (h ! d)], d)"
proof (induction cs arbitrary: h)
  case Nil
  then show ?case by simp
next
  case (Cons c cs)
  then show ?case by (simp add: assign_in_place_eq)
qed

lemma dropna_rebind_value:
  assumes "d < length h"
  shows "snd (dropna_rebind c (h, d)) < length (fst (dropna_rebind c (h, d)))"
    and "fst (dropna_rebind c (h, d)) ! snd (dropna_rebind c (h, d)) = dropna_if c (h ! d)"
  using assms by (auto simp: dropna_rebind_def dropna_if_def nth_append)

lemma fold_dropna_rebind:
  "d < length h \<Longrightarrow>
   snd (fold dropna_rebind cs (h, d)) < length (fst (fold dropna_rebind cs (h, d))) \<and>
   fst (fold dropna_rebind cs (h, d)) ! snd (fold dropna_rebind cs (h, d)) =
     fold dropna_if cs (h ! d)"
proof (induction cs arbitrary: h d)
  case Nil
  then show ?case by simp
next
  case (Cons c cs)
  obtain h1 d1 where s: "dropna_rebind c (h, d) = (h1, d1)"
    by (cases "dropna_rebind c (h, d)")
  from dropna_rebind_value [OF Cons.prems, of c] s
  have d1: "d1 < length h1" and v1: "h1 ! d1 = dropna_if c (h ! d)" by simp_all
  from Cons.IH [OF d1] show ?case by (simp add: s v1)
qed

lemma clean_and_transform_result:
  assumes a: "a < length h"
  shows "snd (clean_and_transform P h a) < length (fst (clean_and_transform P h a)) \<and>
         fst (clean_and_transform P h a) ! snd (clean_and_transform P h a) =
           (if empty (h ! a) then h ! a else clean_value P (h ! a))"
proof (cases "empty (h ! a)")
  case True
  then show ?thesis using a by (simp add: clean_and_transform_def)
next
  case False
  define s1 where "s1 = (if ''case_month'' \<in> set (columns (h ! a))
                  then dropna_rebind ''case_month''
                         (assign_in_place ''case_month'' (to_datetime P) (h, a))
                  else (h, a))"
  define v1 where
    "v1 = dropna_if ''case_month'' (assign_if ''case_month'' (to_datetime P) (h ! a))"
  have s1: "snd s1 < length (fst s1) \<and> fst s1 ! snd s1 = v1"
    using dropna_rebind_value
      [of a "h[a := assign_if ''case_month'' (to_datetime P) (h ! a)]" "''case_month''"] a
    by (simp add: s1_def v1_def assign_in_place_eq) (simp add: assign_if_def dropna_if_def)
  obtain h1 d1 where e1: "s1 = (h1, d1)" by (cases s1)
  with s1 have d1: "d1 < length h1" and hv1: "h1 ! d1 = v1" by simp_all
  define v3 where "v3 = fold (\<lambda>col. assign_if col (clean_str P)) str_cols
         (fold (\<lambda>col. assign_if col (to_int P)) numerical_cols v1)"
  define s3 where "s3 = fold (\<lambda>col. assign_in_place col (clean_str P)) str_cols
     (fold (\<lambda>col. assign_in_place col (to_int P)) numerical_cols s1)"
  have s3: "s3 = (h1[d1 := v3], d1)"
    by (simp add: s3_def e1 fold_assign_in_place d1 hv1 v3_def)
  define s4 where "s4 = fold dropna_rebind location_cols s3"
  have s4: "snd s4 < length (fst s4) \<and> fst s4 ! snd s4 = fold dropna_if location_cols v3"
    using fold_dropna_rebind [of d1 "h1[d1 := v3]" location_cols] d1 by (simp add: s4_def s3)
  obtain h4 d4 where e4: "s4 = (h4, d4)" by (cases s4)
  with s4 have d4: "d4 < length h4" and hv4: "h4 ! d4 = fold dropna_if location_cols v3"
    by simp_all
  have "clean_and_transform P h a =
      (if ''process'' \<notin> set (columns (h4 ! d4))
       then (h4[d4 := assign_const ''process'' (Str ''Unknown'') (h4 ! d4)], d4)
       else (h4, d4))"
    using False e4 by (simp add: clean_and_transform_def Let_def s4_def s3_def s1_def)
  then have "snd (clean_and_transform P h a) < length (fst (clean_and_transform P h a)) \<and>
      fst (clean_and_transform P h a) ! snd (clean_and_transform P h a) = ensure_process (h4 ! d4)"
    using d4 by (simp add: ensure_process_def)
  then show ?thesis using False by (simp add: hv4 v3_def v1_def clean_value_def)
qed

lemma cleaned_eq: "cleaned P b = (if empty b then b else clean_value P b)"
  using clean_and_transform_result [of 0 "[b]" P]
  by (simp add: cleaned_def split_beta)

lemma strip_Unknown: "strip ''Unknown'' = ''Unknown''"
  by (simp add: strip_def is_space_def)

lemmas clean_value_unfold =
  clean_value_def numerical_cols_def str_cols_def location_cols_def assign_if_def dropna_if_def
  assign_def dropna_def ensure_process_def assign_const_def clean_str_def to_int_def

subsection \<open>Shape of the cleaned frame\<close>


lemma columns_simps [simp]:
  "columns (assign c f df) = columns df"
  "columns (dropna c df) = columns df"
  "columns (assign_if c f df) = columns df"
  "columns (dropna_if c df) = columns df"
  by (simp_all add: assign_def dropna_def assign_if_def dropna_if_def)

lemma columns_fold_assign_if [simp]:
  "columns (fold (\<lambda>col. assign_if col f) cs df) = columns df"
  by (induction cs arbitrary: df) simp_all

lemma columns_fold_dropna_if [simp]:
  "columns (fold dropna_if cs df) = columns df"
  by (induction cs arbitrary: df) simp_all

lemma columns_ensure_process:
  "set (columns (ensure_process df)) = insert ''process'' (set (columns df))"
  by (auto simp: ensure_process_def assign_const_def)

lemma columns_clean_value:
  "set (columns (clean_value P b)) = insert ''process'' (set (columns b))"
  by (simp add: clean_value_def columns_ensure_process)

lemma col_all_dropna_if: "col_all Q c df \<Longrightarrow> col_all Q c (dropna_if c' df)"
  by (simp add: col_all_def dropna_if_def dropna_def)

lemma col_all_fold_dropna_if: "col_all Q c df \<Longrightarrow> col_all Q c (fold dropna_if cs df)"
  by (induction cs arbitrary: df) (simp_all add: col_all_dropna_if)

lemma col_all_dropna:
  "c \<in> set (columns df) \<Longrightarrow> col_all (\<lambda>x. x \<noteq> NaN) c (dropna_if c df)"
  by (simp add: col_all_def dropna_def dropna_if_def)

lemma col_all_assign_other:
  "c \<noteq> c' \<Longrightarrow> col_all Q c df \<Longrightarrow> col_all Q c (assign_if c' f df)"
  by (simp add: col_all_def assign_if_def assign_def)

lemma col_all_assign_same:
  "c \<in> set (columns df) \<Longrightarrow> (\<And>x. Q (f x)) \<Longrightarrow> col_all Q c (assign_if c f df)"
  by (simp add: col_all_def assign_if_def assign_def)

lemma col_all_fold_assign_other:
  "c \<notin> set cs \<Longrightarrow> col_all Q c df \<Longrightarrow> col_all Q c (fold (\<lambda>col. assign_if col f) cs df)"
  by (induction cs arbitrary: df) (auto simp: col_all_assign_other)

lemma col_all_fold_assign_same:
  "c \<in> set cs \<Longrightarrow> c \<in> set (columns df) \<Longrightarrow> (\<And>x. Q (f x)) \<Longrightarrow>
   col_all Q c (fold (\<lambda>col. assign_if col f) cs df)"
proof (induction cs arbitrary: df)
  case Nil
  then show ?case by simp
next
  case (Cons c' cs)
  show ?case
  proof (cases "c \<in> set cs")
    case True
    with Cons show ?thesis by simp
  next
    case False
    with Cons.prems have "c' = c" by simp
    with False Cons.prems show ?thesis
      by (simp add: col_all_fold_assign_other col_all_assign_same)
  qed
qed

lemma col_all_ensure_process:
  "c \<noteq> ''process'' \<Longrightarrow> col_all Q c df \<Longrightarrow> col_all Q c (ensure_process df)"
  by (simp add: col_all_def ensure_process_def assign_const_def)

lemma col_all_conj: "col_all Q c df \<Longrightarrow> col_all Q' c df \<Longrightarrow> col_all (\<lambda>x. Q x \<and> Q' x) c df"
  by (simp add: col_all_def)

lemma col_all_mono: "col_all Q c df \<Longrightarrow> (\<And>x. Q x \<Longrightarrow> Q' x) \<Longrightarrow> col_all Q' c df"
  by (auto simp: col_all_def)

lemma to_int_Num: "\<exists>n. to_int P x = Num n"
  by (cases x) (auto simp: to_int_def split: option.splits)

lemma numerical_cols_others:
  "c \<in> set numerical_cols \<Longrightarrow> c \<notin> set str_cols \<and> c \<noteq> ''process'' \<and> c \<noteq> ''case_month''"
  by (auto simp: numerical_cols_def str_cols_def)

lemma str_cols_others:
  "c \<in> set str_cols \<Longrightarrow> c \<notin> set numerical_cols \<and> c \<noteq> ''process'' \<and> c \<noteq> ''case_month''"
  by (auto simp: numerical_cols_def str_cols_def)

lemma case_month_others:
  "''case_month'' \<notin> set numerical_cols \<and> ''case_month'' \<notin> set str_cols"
  by (simp add: numerical_cols_def str_cols_def)

lemma fips_others:
  "''state_fips_code'' \<notin> set numerical_cols \<and> ''state_fips_code'' \<notin> set str_cols"
  by (simp add: numerical_cols_def str_cols_def)

lemma clean_value_numeric:
  assumes c: "c \<in> set numerical_cols" and cb: "c \<in> set (columns b)"
  shows "col_all (\<lambda>x. \<exists>n. x = Num n) c (clean_value P b)"
proof -
  let ?v1 = "dropna_if ''case_month'' (assign_if ''case_month'' (to_datetime P) b)"
  let ?v2 = "fold (\<lambda>col. assign_if col (to_int P)) numerical_cols ?v1"
  have "col_all (\<lambda>x. \<exists>n. x = Num n) c ?v2"
    using c cb by (simp add: col_all_fold_assign_same to_int_Num)
  then have "col_all (\<lambda>x. \<exists>n. x = Num n) c (fold (\<lambda>col. assign_if col (clean_str P)) str_cols ?v2)"
    using numerical_cols_others [OF c] by (simp add: col_all_fold_assign_other)
  then have "col_all (\<lambda>x. \<exists>n. x = Num n) c
      (fold dropna_if location_cols (fold (\<lambda>col. assign_if col (clean_str P)) str_cols ?v2))"
    by (rule col_all_fold_dropna_if)
  then show ?thesis
    unfolding clean_value_def using numerical_cols_others [OF c] by (simp add: col_all_ensure_process)
qed

text \<open>Stripping twice strips once.\<close>

lemma dropWhile_fix: "xs = [] \<or> \<not> Q (hd xs) \<Longrightarrow> dropWhile Q xs = xs"
  by (cases xs) auto

lemma dropWhile_hd: "dropWhile Q xs = [] \<or> \<not> Q (hd (dropWhile Q xs))"
  by (metis hd_dropWhile)

lemma strip_strip: "strip (strip s) = strip s"
proof -
  define t where "t = dropWhile is_space s"
  define u where "u = rev (dropWhile is_space (rev t))"
  have t: "t = [] \<or> \<not> is_space (hd t)" unfolding t_def by (rule dropWhile_hd)
  have pre: "t = u @ rev (takeWhile is_space (rev t))"
  proof -
    have "rev (takeWhile is_space (rev t) @ dropWhile is_space (rev t)) = t"
      by (simp only: takeWhile_dropWhile_id rev_rev_ident)
    then show ?thesis unfolding u_def rev_append by (rule sym)
  qed
  have u1: "u = [] \<or> \<not> is_space (hd u)"
  proof (cases "u = []")
    case True then show ?thesis by simp
  next
    case False
    with pre have "hd t = hd u" by (metis hd_append2)
    moreover from False pre have "t \<noteq> []" by auto
    ultimately show ?thesis using t by simp
  qed
  have "rev u = dropWhile is_space (rev t)" by (simp only: u_def rev_rev_ident)
  then have u2: "rev u = [] \<or> \<not> is_space (hd (rev u))"
    using dropWhile_hd [of is_space "rev t"] by (simp only:)
  have "strip u = u"
    unfolding strip_def
    using dropWhile_fix [of u is_space, OF u1] dropWhile_fix [of "rev u" is_space, OF u2] by simp
  then show ?thesis by (simp add: strip_def u_def t_def)
qed

lemma clean_str_shape: "\<exists>s. clean_str P x = Str s \<and> strip s = s"
  by (simp add: clean_str_def strip_strip)

lemma clean_value_str:
  assumes c: "c \<in> set str_cols" and cb: "c \<in> set (columns b)"
  shows "col_all (\<lambda>x. \<exists>s. x = Str s \<and> strip s = s) c (clean_value P b)"
proof -
  let ?v2 = "fold (\<lambda>col. assign_if col (to_int P)) numerical_cols
     (dropna_if ''case_month'' (assign_if ''case_month'' (to_datetime P) b))"
  have "col_all (\<lambda>x. \<exists>s. x = Str s \<and> strip s = s) c
      (fold (\<lambda>col. assign_if col (clean_str P)) str_cols ?v2)"
    using c cb by (simp add: col_all_fold_assign_same clean_str_shape)
  then have "col_all (\<lambda>x. \<exists>s. x = Str s \<and> strip s = s) c
      (fold dropna_if location_cols (fold (\<lambda>col. assign_if col (clean_str P)) str_cols ?v2))"
    by (rule col_all_fold_dropna_if)
  then show ?thesis
    unfolding clean_value_def using str_cols_others [OF c] by (simp add: col_all_ensure_process)
qed

lemma to_datetime_shape: "to_datetime P x = NaN \<or> (\<exists>t. to_datetime P x = Timestamp t)"
  by (cases x) (auto split: option.splits)

lemma clean_value_case_month:
  assumes cb: "''case_month'' \<in> set (columns b)"
  shows "col_all (\<lambda>x. \<exists>t. x = Timestamp t) ''case_month'' (clean_value P b)"
proof -
  let ?Q = "\<lambda>x. \<exists>t. x = Timestamp t"
  let ?a = "assign_if ''case_month'' (to_datetime P) b"
  have "col_all (\<lambda>x. x = NaN \<or> ?Q x) ''case_month'' ?a"
    using cb by (simp add: col_all_assign_same to_datetime_shape)
  then have "col_all (\<lambda>x. x = NaN \<or> ?Q x) ''case_month'' (dropna_if ''case_month'' ?a)"
    by (rule col_all_dropna_if)
  moreover have "col_all (\<lambda>x. x \<noteq> NaN) ''case_month'' (dropna_if ''case_month'' ?a)"
    using cb by (simp add: col_all_dropna)
  ultimately have "col_all ?Q ''case_month'' (dropna_if ''case_month'' ?a)"
    by (auto simp: col_all_def)
  then have "col_all ?Q ''case_month''
     (fold (\<lambda>col. assign_if col (clean_str P)) str_cols
       (fold (\<lambda>col. assign_if col (to_int P)) numerical_cols (dropna_if ''case_month'' ?a)))"
    using case_month_others by (simp add: col_all_fold_assign_other)
  then have "col_all ?Q ''case_month'' (fold dropna_if location_cols
     (fold (\<lambda>col. assign_if col (clean_str P)) str_cols
       (fold (\<lambda>col. assign_if col (to_int P)) numerical_cols (dropna_if ''case_month'' ?a))))"
    by (rule col_all_fold_dropna_if)
  then show ?thesis
    unfolding clean_value_def by (simp add: col_all_ensure_process)
qed

lemma clean_value_fips:
  assumes cb: "''state_fips_code'' \<in> set (columns b)"
  shows "col_all (\<lambda>x. x \<noteq> NaN) ''state_fips_code'' (clean_value P b)"
proof -
  let ?v3 = "fold (\<lambda>col. assign_if col (clean_str P)) str_cols
       (fold (\<lambda>col. assign_if col (to_int P)) numerical_cols
          (dropna_if ''case_month'' (assign_if ''case_month'' (to_datetime P) b)))"
  have "col_all (\<lambda>x. x \<noteq> NaN) ''state_fips_code'' (fold dropna_if location_cols ?v3)"
    using cb by (simp add: location_cols_def col_all_dropna)
  then show ?thesis
    unfolding clean_value_def by (simp add: col_all_ensure_process)
qed

text \<open>A frame of the cleaned shape is a fixed point of every step.\<close>

lemma assign_if_id:
  "(c \<in> set (columns df) \<Longrightarrow> col_all (\<lambda>x. f x = x) c df) \<Longrightarrow> assign_if c f df = df"
  by (auto simp: assign_if_def assign_def col_all_def map_idI)

lemma fold_assign_if_id:
  "(\<And>c. c \<in> set cs \<Longrightarrow> c \<in> set (columns df) \<Longrightarrow> col_all (\<lambda>x. f x = x) c df) \<Longrightarrow>
   fold (\<lambda>col. assign_if col f) cs df = df"
  by (induction cs) (simp_all add: assign_if_id)

lemma dropna_if_id:
  "(c \<in> set (columns df) \<Longrightarrow> col_all (\<lambda>x. x \<noteq> NaN) c df) \<Longrightarrow> dropna_if c df = df"
  by (auto simp: dropna_if_def dropna_def col_all_def)

lemma fold_dropna_if_id:
  "(\<And>c. c \<in> set cs \<Longrightarrow> c \<in> set (columns df) \<Longrightarrow> col_all (\<lambda>x. x \<noteq> NaN) c df) \<Longrightarrow>
   fold dropna_if cs df = df"
  by (induction cs) (simp_all add: dropna_if_id)

lemma clean_value_fixed:
  assumes p: "''process'' \<in> set (columns df)"
    and d: "''case_month'' \<in> set (columns df) \<Longrightarrow> col_all (\<lambda>x. \<exists>t. x = Timestamp t) ''case_month'' df"
    and n: "\<And>c. c \<in> set numerical_cols \<Longrightarrow> c \<in> set (columns df) \<Longrightarrow> col_all (\<lambda>x. \<exists>n. x = Num n) c df"
    and s: "\<And>c. c \<in> set str_cols \<Longrightarrow> c \<in> set (columns df) \<Longrightarrow> col_all (\<lambda>x. \<exists>s. x = Str s \<and> strip s = s) c df"
    and f: "''state_fips_code'' \<in> set (columns df) \<Longrightarrow> col_all (\<lambda>x. x \<noteq> NaN) ''state_fips_code'' df"
  shows "clean_value P df = df"
proof -
  have 1: "assign_if ''case_month'' (to_datetime P) df = df"
  proof (rule assign_if_id)
    assume "''case_month'' \<in> set (columns df)"
    from d [OF this] show "col_all (\<lambda>x. to_datetime P x = x) ''case_month'' df"
      by (rule col_all_mono) auto
  qed
  have 2: "dropna_if ''case_month'' df = df"
  proof (rule dropna_if_id)
    assume "''case_month'' \<in> set (columns df)"
    from d [OF this] show "col_all (\<lambda>x. x \<noteq> NaN) ''case_month'' df"
      by (rule col_all_mono) auto
  qed
  have 3: "fold (\<lambda>col. assign_if col (to_int P)) numerical_cols df = df"
  proof (rule fold_assign_if_id)
    fix c assume "c \<in> set numerical_cols" and "c \<in> set (columns df)"
    from n [OF this] show "col_all (\<lambda>x. to_int P x = x) c df"
      by (rule col_all_mono) (auto simp: to_int_def)
  qed
  have 4: "fold (\<lambda>col. assign_if col (clean_str P)) str_cols df = df"
  proof (rule fold_assign_if_id)
    fix c assume "c \<in> set str_cols" and "c \<in> set (columns df)"
    from s [OF this] show "col_all (\<lambda>x. clean_str P x = x) c df"
      by (rule col_all_mono) (auto simp: clean_str_def)
  qed
  have 5: "fold dropna_if location_cols df = df"
  proof (rule fold_dropna_if_id)
    fix c assume c: "c \<in> set location_cols" and cd: "c \<in> set (columns df)"
    from c have "c = ''res_state'' \<or> c = ''state_fips_code''" by (simp add: location_cols_def)
    then show "col_all (\<lambda>x. x \<noteq> NaN) c df"
    proof
      assume e: "c = ''res_state''"
      then have "c \<in> set str_cols" by (simp add: str_cols_def)
      from s [OF this cd] show ?thesis by (rule col_all_mono) auto
    next
      assume "c = ''state_fips_code''"
      with f cd show ?thesis by simp
    qed
  qed
  show ?thesis using p by (simp add: clean_value_def 1 2 3 4 5 ensure_process_def)
qed

subsection \<open>Where the interval cells come from\<close>











subsection \<open>The caller's frame after the call\<close>




lemma length_rows_simps [simp]:
  "length (rows (assign c f df)) = length (rows df)"
  "length (rows (assign_if c f df)) = length (rows df)"
  "length (rows (ensure_process df)) = length (rows df)"
  by (simp_all add: assign_def assign_if_def ensure_process_def assign_const_def)

lemma length_rows_fold_assign_if [simp]:
  "length (rows (fold (\<lambda>col. assign_if col f) cs df)) = length (rows df)"
  by (induction cs arbitrary: df) simp_all




subsection \<open>Rows without a state\<close>

text \<open>
  C1. The claim is that a row without a value under res_state or state_fips_code never
  appears in the output. The transformer fills res_state with the text Unknown, as one of
  its string columns, before it drops the rows without a location, so its later
  \<^verbatim>\<open>dropna(subset=['res_state'])\<close> finds nothing to drop: the single row of the example
  batch has no res_state and is returned, with Unknown as its state.
\<close>

theorem clean_and_transform_keeps_missing_res_state:
  "(rows missing_state_batch ! 0) ''res_state'' = NaN \<and>
   length (rows (cleaned example_pandas missing_state_batch)) = 1 \<and>
   (rows (cleaned example_pandas missing_state_batch) ! 0) ''res_state'' = Str ''Unknown'' \<and>
   (rows (cleaned example_pandas missing_state_batch) ! 0) ''state_fips_code'' = Num 12"
  by (simp add: cleaned_eq empty_def missing_state_batch_def example_pandas_def
      clean_value_unfold strip_Unknown)

subsection \<open>Applying the transformer twice\<close>

text \<open>
  C5. The transformer is idempotent: the frame returned for the frame that a first call
  returned is that frame again, clean(clean(b)) = clean(b), for every batch b and whatever
  the parsers of pandas accept. An empty frame is returned as it is; a frame that is not
  empty comes back with dates under case_month, integers under the interval columns,
  stripped text under the string columns, no missing FIPS code and a process column, and
  no step changes such a frame.
\<close>

theorem clean_and_transform_idempotent: "cleaned P (cleaned P b) = cleaned P b"
proof (cases "empty b")
  case True
  then show ?thesis by (simp add: cleaned_eq)
next
  case False
  have cols: "set (columns (clean_value P b)) = insert ''process'' (set (columns b))"
    by (rule columns_clean_value)
  have "clean_value P (clean_value P b) = clean_value P b"
  proof (rule clean_value_fixed)
    show "''process'' \<in> set (columns (clean_value P b))" by (simp add: cols)
  next
    assume "''case_month'' \<in> set (columns (clean_value P b))"
    then have "''case_month'' \<in> set (columns b)" by (simp add: cols)
    then show "col_all (\<lambda>x. \<exists>t. x = Timestamp t) ''case_month'' (clean_value P b)"
      by (rule clean_value_case_month)
  next
    fix c assume c: "c \<in> set numerical_cols" and "c \<in> set (columns (clean_value P b))"
    with numerical_cols_others [OF c] have "c \<in> set (columns b)" by (simp add: cols)
    with c show "col_all (\<lambda>x. \<exists>n. x = Num n) c (clean_value P b)" by (rule clean_value_numeric)
  next
    fix c assume c: "c \<in> set str_cols" and "c \<in> set (columns (clean_value P b))"
    with str_cols_others [OF c] have "c \<in> set (columns b)" by (simp add: cols)
    with c show "col_all (\<lambda>x. \<exists>s. x = Str s \<and> strip s = s) c (clean_value P b)" by (rule clean_value_str)
  next
    assume "''state_fips_code'' \<in> set (columns (clean_value P b))"
    then have "''state_fips_code'' \<in> set (columns b)" by (simp add: cols)
    then show "col_all (\<lambda>x. x \<noteq> NaN) ''state_fips_code'' (clean_value P b)"
      by (rule clean_value_fips)
  qed
  with False show ?thesis by (simp add: cleaned_eq)
qed

subsection \<open>The interval columns\<close>





subsection \<open>What the call does to the caller's frame\<close>



section \<open>Properties of the client\<close>

subsection \<open>Retries\<close>

lemma fetch_attempts_all_fail:
  assumes "\<And>j. j < length as \<Longrightarrow> \<not> (\<exists>df. net (k + j) limit off = Ok df)"
    and "as = map int [i..<n]" and "retries = int n"
  shows "fetch_attempts net limit off retries wait k as =
           (DataFrame, intersperse (Sleep wait) (replicate (length as) (Request limit off)),
            k + length as)"
  using assms
proof (induction as arbitrary: k i)
  case Nil
  then show ?case by simp
next
  case (Cons a as)
  from Cons.prems(2) have i: "i < n" and a: "a = int i" and as: "as = map int [Suc i..<n]"
    by (cases "i < n"; simp add: upt_conv_Cons)+
  have fail: "\<not> (\<exists>df. net k limit off = Ok df)"
    using Cons.prems(1) [of 0] by simp
  have rest: "fetch_attempts net limit off retries wait (Suc k) as =
           (DataFrame, intersperse (Sleep wait) (replicate (length as) (Request limit off)),
            Suc k + length as)"
  proof (rule Cons.IH [OF _ as Cons.prems(3)])
    fix j assume "j < length as"
    then show "\<not> (\<exists>df. net (Suc k + j) limit off = Ok df)"
      using Cons.prems(1) [of "Suc j"] by simp
  qed
  have sl: "(a < retries - 1) = (as \<noteq> [])"
    using i by (auto simp: a as Cons.prems(3))
  show ?case
  proof (cases "net k limit off")
    case (Ok df)
    with fail show ?thesis by simp
  next
    case RequestException
    then show ?thesis using rest sl by (cases as) simp_all
  next
    case OtherException
    then show ?thesis using rest sl by (cases as) simp_all
  qed
qed

lemma fetch_data_all_fail:
  assumes "\<forall>j < nat retries. \<not> (\<exists>df. net (k + j) limit off = Ok df)"
  shows "fetch_data net limit off retries wait k =
           (DataFrame, intersperse (Sleep wait) (replicate (nat retries) (Request limit off)),
            k + nat retries)"
proof (cases "0 \<le> retries")
  case True
  have "fetch_attempts net limit off retries wait k (map int [0..<nat retries]) =
     (DataFrame, intersperse (Sleep wait) (replicate (length (map int [0..<nat retries])) (Request limit off)),
            k + length (map int [0..<nat retries]))"
    by (rule fetch_attempts_all_fail [where i=0 and n="nat retries"]) (use assms True in simp_all)
  then show ?thesis by (simp add: fetch_data_def py_range_def)
next
  case False
  then show ?thesis by (simp add: fetch_data_def py_range_def)
qed


subsection \<open>The generator\<close>

















lemma rows_yielded_none: "yielded fevs = [] \<Longrightarrow> rows_yielded fevs = 0"
  by (simp add: rows_yielded_def)






subsection \<open>Exhausted retries\<close>

lemma requests_intersperse:
  "requests (intersperse (Sleep w) (replicate n (Request l off))) = replicate n (l, off)"
proof (induction n)
  case 0
  then show ?case by simp
next
  case (Suc n)
  then show ?case by (cases n) simp_all
qed


text \<open>
  C6. When every attempt of a call of \<^verbatim>\<open>fetch_data\<close> fails, with either kind of
  exception, the call sends exactly \<^verbatim>\<open>retries\<close> requests, sleeps the given delay
  between two consecutive requests and not after the last one, and returns the empty frame
  \<^verbatim>\<open>pd.DataFrame()\<close> as its value.
\<close>

theorem fetch_data_retries_exhausted:
  assumes "0 \<le> retries"
    and "\<forall>j < nat retries. \<not> (\<exists>df. net (k + j) limit off = Ok df)"
  shows "fetch_data net limit off retries wait k =
           (DataFrame, intersperse (Sleep wait) (replicate (nat retries) (Request limit off)),
            k + nat retries) \<and>
         int (length (requests (fst (snd (fetch_data net limit off retries wait k))))) = retries \<and>
         empty DataFrame"
  using assms fetch_data_all_fail [of retries net k limit off wait]
  by (simp add: requests_intersperse empty_def DataFrame_def)


text \<open>The theorem at a source that is down, with the three attempts and the delay of two seconds of the defaults.\<close>

theorem fetch_data_retries_exhausted_witness:
  "(0::int) \<le> 3 \<and>
   fetch_data unreachable 100 0 3 2 0 =
     (DataFrame, [Request 100 0, Sleep 2, Request 100 0, Sleep 2, Request 100 0], 3) \<and>
   int (length (requests (fst (snd (fetch_data unreachable 100 0 3 2 0))))) = 3"
  using fetch_data_retries_exhausted [of 3 unreachable 0 100 0 2]
  by (simp add: unreachable_def numeral_eq_Suc)


subsection \<open>Runs of the generator on the example source\<close>


lemma py_range_3: "py_range 3 = [0, 1, 2]"
  by (simp add: py_range_def upt_rec numeral_eq_Suc)

lemma fetch_four_rows: "fetch_data four_rows l off 3 2 k = (page l off, [Request l off], Suc k)"
  by (simp add: fetch_data_def py_range_3 four_rows_def)

lemma page_2_0: "page 2 0 = \<lparr>columns = [''case_month'', ''res_state'', ''state_fips_code''],
      rows = [month_row ''2020-03'', month_row ''2019-11'']\<rparr>"
  by (simp add: page_def source_rows_def numeral_eq_Suc)

lemma filter_page_2_0: "date_filter example_pandas from_march (page 2 0) =
   \<lparr>columns = [''case_month'', ''res_state'', ''state_fips_code''],
      rows = [(month_row ''2020-03'')(''case_month'' := Timestamp 1583020800000000000)]\<rparr>"
  by (simp add: page_2_0 date_filter_def from_march_def assign_def filter_from_def month_row_def
      example_pandas_def date_of_def)

lemma filtered_page_facts:
  "\<not> empty (page 2 0)"
  "\<not> empty (date_filter example_pandas from_march (page 2 0))"
  "len (date_filter example_pandas from_march (page 2 0)) = 1"
  "len (page 2 0) = 2"
  by (simp_all add: filter_page_2_0 empty_def len_def) (simp_all add: page_2_0)

lemma it1: "iteration example_pandas four_rows from_march initial =
   ([Request 2 0, Yield (date_filter example_pandas from_march (page 2 0))], None)"
proof -
  have cap: "max_rows from_march = None" by (simp add: from_march_def)
  have l: "request_limit from_march (total_rows initial) = 2"
    by (simp add: request_limit_def from_march_def)
  have f: "fetch_data four_rows 2 (offset initial) 3 2 (calls initial) = (page 2 0, [Request 2 0], Suc 0)"
    by (simp add: fetch_four_rows initial_def)
  show ?thesis
    unfolding iteration_def l Let_def f
    by (simp add: cap filtered_page_facts)
qed


subsection \<open>The test that ends the sequence\<close>

text \<open>
  C3. The claim is that the sequence ends on the number of rows that the source returned,
  before any filtering. \<^verbatim>\<open>fetch_data_chunked\<close> rebinds \<^verbatim>\<open>chunk\<close> to the filtered
  frame and then takes \<^verbatim>\<open>fetched = len(chunk)\<close>, so \<^verbatim>\<open>fetched < limit\<close> compares the
  number of rows that are left after the filter. On the example source, with chunks of two
  rows and a start date, the first page holds two rows, as many as the limit, and the
  filter keeps one of them: the generator yields that row and returns, with no second
  request, although the source holds two more rows at offset 2.
\<close>

theorem fetch_data_chunked_stops_on_filtered_count: "len (page 2 0) = 2 \<and> len (page 2 2) = 2 \<and>
   request_limit from_march 0 = 2 \<and>
   requests (fst (fetch_data_chunked example_pandas four_rows from_march 5)) = [(2, 0)] \<and>
   map len (yielded (fst (fetch_data_chunked example_pandas four_rows from_march 5))) = [1] \<and>
   snd (fetch_data_chunked example_pandas four_rows from_march 5)"
proof -
  have r: "fetch_data_chunked example_pandas four_rows from_march 5 =
      ([Request 2 0, Yield (date_filter example_pandas from_march (page 2 0))], True)"
    by (simp add: fetch_data_chunked_def numeral_eq_Suc it1)
  have "len (page 2 2) = 2" by (simp add: page_def source_rows_def len_def numeral_eq_Suc)
  moreover have "request_limit from_march 0 = 2" by (simp add: request_limit_def from_march_def)
  ultimately show ?thesis
    by (simp add: r filtered_page_facts)
qed

subsection \<open>The cap on the rows\<close>









section \<open>Properties of the storage handler\<close>

subsection \<open>The parameters of the statement\<close>

lemma map_of_map_key:
  "map_of (map (\<lambda>(k, v). (k, f k v)) xs) k = map_option (f k) (map_of xs k)"
  by (induction xs) auto

lemma item_row_data:
  "item (row_data cols r) k =
     (case map_of expected_cols k of
        Some d \<Rightarrow> if k \<in> set cols then r k else d
      | None \<Rightarrow> NaN)"
  by (simp add: item_def row_data_def map_of_map_key split: option.splits)

lemma item_location:
  "item (row_data cols r) ''res_state'' =
     (if ''res_state'' \<in> set cols then r ''res_state'' else Str ''Unknown'')"
  "item (row_data cols r) ''state_fips_code'' =
     (if ''state_fips_code'' \<in> set cols then r ''state_fips_code'' else Num 0)"
  "item (row_data cols r) ''case_month'' =
     (if ''case_month'' \<in> set cols then r ''case_month'' else NaN)"
  by (simp_all add: item_row_data expected_cols_def)

lemma bind_location:
  "bind (a # b # c # rest) ''res_state'' = b"
  "bind (a # b # c # rest) ''state_fips_code'' = c"
  by (simp_all add: bind_def insert_columns_def)


lemma case_month_str_ok:
  "''case_month'' \<in> set cols \<longrightarrow> date_or_null (r ''case_month'') \<Longrightarrow>
   \<exists>month. case_month_str P (row_data cols r) = Inr month"
  by (cases "r ''case_month''") (simp_all add: case_month_str_def item_location date_or_null_def)

lemma params_ok:
  assumes "''case_month'' \<in> set cols \<longrightarrow> date_or_null (r ''case_month'')"
  shows "\<exists>p. params P cols r = Inr p \<and>
           bind p ''res_state'' =
             (if ''res_state'' \<in> set cols then r ''res_state'' else Str ''Unknown'') \<and>
           bind p ''state_fips_code'' =
             (if ''state_fips_code'' \<in> set cols then r ''state_fips_code'' else Num 0)"
proof -
  from case_month_str_ok [of cols r P, OF assms]
  obtain month where m: "case_month_str P (row_data cols r) = Inr month" by blast
  show ?thesis
    unfolding params_def Let_def m
    by (simp add: bind_location item_location)
qed

lemma build_rows_ok:
  assumes "\<forall>r \<in> set rs. ''case_month'' \<in> set cols \<longrightarrow> date_or_null (r ''case_month'')"
  shows "\<exists>ps. build_rows P cols rs = Inr ps \<and> length ps = length rs \<and>
           (''res_state'' \<notin> set cols \<longrightarrow> (\<forall>p \<in> set ps. bind p ''res_state'' = Str ''Unknown'')) \<and>
           (''state_fips_code'' \<notin> set cols \<longrightarrow> (\<forall>p \<in> set ps. bind p ''state_fips_code'' = Num 0))"
  using assms
proof (induction rs)
  case Nil
  then show ?case by simp
next
  case (Cons r rs)
  from Cons.prems have "''case_month'' \<in> set cols \<longrightarrow> date_or_null (r ''case_month'')" by simp
  from params_ok [of cols r P, OF this] obtain p where p: "params P cols r = Inr p"
    and p1: "bind p ''res_state'' =
             (if ''res_state'' \<in> set cols then r ''res_state'' else Str ''Unknown'')"
    and p2: "bind p ''state_fips_code'' =
             (if ''state_fips_code'' \<in> set cols then r ''state_fips_code'' else Num 0)"
    by blast
  from Cons obtain ps where ps: "build_rows P cols rs = Inr ps" "length ps = length rs"
    "''res_state'' \<notin> set cols \<longrightarrow> (\<forall>p \<in> set ps. bind p ''res_state'' = Str ''Unknown'')"
    "''state_fips_code'' \<notin> set cols \<longrightarrow> (\<forall>p \<in> set ps. bind p ''state_fips_code'' = Num 0)"
    by auto
  show ?case
    using p p1 p2 ps by simp
qed


subsection \<open>Two rows with one key\<close>







text \<open>A key with a NULL collides with nothing, not even with itself.\<close>

lemma null_key_never_collides: "new ''case_month'' = NaN \<Longrightarrow> \<not> duplicate_key new old"
  by (simp add: duplicate_key_def unique_case_def)







subsection \<open>Columns that the batch lacks\<close>

lemma no_location_params:
  "build_rows example_pandas (columns no_location_batch) (rows no_location_batch) =
     Inr [[Str ''2020-03-01'', Str ''Unknown'', Num 0, Str ''Unknown'', Str ''Male'', Str ''Unknown'',
           Str ''Unknown'', Num 0, Num 0, Str ''Unknown'', Str ''Unknown'', Str ''Unknown'',
           Str ''Unknown'', Str ''Unknown'', Str ''Unknown'', Str ''Unknown'', Str ''Unknown'']]"
  by (simp add: no_location_batch_def params_def Let_def case_month_str_def item_row_data
      expected_cols_def example_pandas_def)


text \<open>
  C10. \<^verbatim>\<open>load_cdc_data\<close> rejects no row for a column that its batch lacks. When every
  value under case_month, if the batch has that column, is missing or a Timestamp, a tuple
  is built for every row of the batch, and it is passed to the statement; in every tuple
  of a batch without res_state the state is the text Unknown, and in every tuple of a
  batch without state_fips_code the code is 0.
\<close>

theorem load_cdc_data_defaults_for_missing_columns:
  assumes "''case_month'' \<in> set (columns df) \<longrightarrow>
             (\<forall>r \<in> set (rows df). date_or_null (r ''case_month''))"
  shows "\<exists>ps. build_rows P (columns df) (rows df) = Inr ps \<and>
           length ps = length (rows df) \<and>
           (''res_state'' \<notin> set (columns df) \<longrightarrow>
              (\<forall>p \<in> set ps. bind p ''res_state'' = Str ''Unknown'')) \<and>
           (''state_fips_code'' \<notin> set (columns df) \<longrightarrow>
              (\<forall>p \<in> set ps. bind p ''state_fips_code'' = Num 0)) \<and>
           load_cdc_data P accepts t df = Inr (if accepts ps then executemany t ps else t)"
proof -
  from assms have "\<forall>r \<in> set (rows df). ''case_month'' \<in> set (columns df) \<longrightarrow> date_or_null (r ''case_month'')"
    by blast
  from build_rows_ok [OF this, of P] obtain ps where
    ps: "build_rows P (columns df) (rows df) = Inr ps" "length ps = length (rows df)"
    "''res_state'' \<notin> set (columns df) \<longrightarrow> (\<forall>p \<in> set ps. bind p ''res_state'' = Str ''Unknown'')"
    "''state_fips_code'' \<notin> set (columns df) \<longrightarrow> (\<forall>p \<in> set ps. bind p ''state_fips_code'' = Num 0)"
    by blast
  then show ?thesis by (simp add: load_cdc_data_def)
qed


text \<open>The theorem at a batch with neither location column, loaded into an empty table.\<close>

theorem load_cdc_data_defaults_for_missing_columns_witness:
  "date_or_null ((rows no_location_batch ! 0) ''case_month'') \<and>
   ''res_state'' \<notin> set (columns no_location_batch) \<and>
   ''state_fips_code'' \<notin> set (columns no_location_batch) \<and>
   (\<exists>ps. build_rows example_pandas (columns no_location_batch) (rows no_location_batch) = Inr ps \<and>
      length ps = 1 \<and> bind (ps ! 0) ''res_state'' = Str ''Unknown'' \<and>
      bind (ps ! 0) ''state_fips_code'' = Num 0 \<and>
      load_cdc_data example_pandas (\<lambda>ps. True) [] no_location_batch = Inr [bind (ps ! 0)])"
proof -
  have a: "''case_month'' \<in> set (columns no_location_batch) \<longrightarrow>
             (\<forall>r \<in> set (rows no_location_batch). date_or_null (r ''case_month''))"
    by (simp add: no_location_batch_def date_or_null_def)
  have b: "date_or_null ((rows no_location_batch ! 0) ''case_month'')"
    "''res_state'' \<notin> set (columns no_location_batch)"
    "''state_fips_code'' \<notin> set (columns no_location_batch)"
    "length (rows no_location_batch) = 1"
    by (simp_all add: no_location_batch_def date_or_null_def)
  from load_cdc_data_defaults_for_missing_columns [OF a, of example_pandas "\<lambda>ps. True" "[]"]
  obtain ps where ps: "build_rows example_pandas (columns no_location_batch) (rows no_location_batch) = Inr ps"
    "length ps = length (rows no_location_batch)"
    "''res_state'' \<notin> set (columns no_location_batch) \<longrightarrow>
              (\<forall>p \<in> set ps. bind p ''res_state'' = Str ''Unknown'')"
    "''state_fips_code'' \<notin> set (columns no_location_batch) \<longrightarrow>
              (\<forall>p \<in> set ps. bind p ''state_fips_code'' = Num 0)"
    "load_cdc_data example_pandas (\<lambda>ps. True) [] no_location_batch = Inr (executemany [] ps)"
    by auto
  from ps(2) b(4) obtain p where p: "ps = [p]" by (cases ps) auto
  with ps b show ?thesis by (auto simp: executemany_def)
qed

section \<open>Properties of the orchestrator\<close>







end
